theory Spec2Isabelle
  imports Main
begin

section \<open>Escape the dungeon: data model\<close>

text \<open>
  The program is one Python module, \<^verbatim>\<open>Escape_dungeon.py\<close>. The world is a dictionary from
  room names to room dictionaries; a room holds a description, a dictionary of exits (whose
  insertion order is the order of the numbered menu), a list of items and an optional
  obstacle dictionary. The player object holds a name, an inventory list, the name of the
  current room and the capacity of the inventory.

  Mutation is modelled by passing the player and the world through every handler. What a
  handler reads from the console is a parameter: the value of \<^verbatim>\<open>int(input(...))\<close> is an
  \<open>int option\<close> (\<open>None\<close> when \<^verbatim>\<open>int\<close> raises \<^verbatim>\<open>ValueError\<close>), the reply to the y/n
  question is the boolean \<^verbatim>\<open>input(...).lower() == 'y'\<close>. What a handler prints is returned as
  a list of printed lines, in order: \<open>Line\<close> holds the text of a \<^verbatim>\<open>print\<close> (without its
  leading blank line), \<open>Numbered\<close> is a menu entry \<^verbatim>\<open>f"{i}. {item}"\<close>, and the lines that
  format a number or an exception keep the number or the exception. The prompts of \<^verbatim>\<open>input\<close>
  are not recorded.
\<close>

record Obstacle =
  type :: string
  required_item :: string
  message :: string
  direction :: "string option"

record Room =
  description :: string
  exits :: "(string \<times> string) list"
  items :: "string list"
  obstacle :: "Obstacle option"

record Player =
  name :: string
  inventory :: "string list"
  location :: string
  max_inventory :: int

type_synonym World = "string \<rightharpoonup> Room"

text \<open>
  The exceptions that the handlers can raise: the two subclasses of \<^verbatim>\<open>GameError\<close>, with the
  text they carry, and the \<^verbatim>\<open>KeyError\<close> of a dictionary lookup, with the missing key.
\<close>

datatype error =
    InventoryFullError int
  | InvalidCommandError string
  | KeyError string

datatype msg =
    Line string
  | Numbered nat string
  | InventoryHeader nat int
  | Error error
  | Unexpected error

text \<open>
  A handler returns the exception it raised, if any, what it printed, and the player and the
  world as they are when it returns or raises.
\<close>

type_synonym result = "error option \<times> msg list \<times> Player \<times> World"

subsection \<open>Python list operations\<close>

text \<open>
  \<^verbatim>\<open>xs[i]\<close>: an index below zero counts from the end of the list, and an index outside
  \<open>-len(xs) .. len(xs) - 1\<close> raises \<^verbatim>\<open>IndexError\<close> (here \<open>None\<close>).
\<close>

definition py_index :: "'a list \<Rightarrow> int \<Rightarrow> 'a option" where
  "py_index xs i =
     (let n = int (length xs) in
      if 0 \<le> i \<and> i < n then Some (xs ! nat i)
      else if - n \<le> i \<and> i < 0 then Some (xs ! nat (n + i))
      else None)"

text \<open>\<^verbatim>\<open>enumerate(xs, 1)\<close>, printed as one numbered line for each element.\<close>

definition numbered :: "string list \<Rightarrow> msg list" where
  "numbered xs = map (\<lambda>(i, x). Numbered i x) (enumerate 1 xs)"

subsection \<open>Fixed texts\<close>

text \<open>\<open>CHR 0x27\<close> is the apostrophe, written so where a text begins or ends with one.\<close>

definition print_header :: "string \<Rightarrow> msg list" where
  "print_header text =
     [Line (replicate 40 CHR ''-''), Line ('' '' @ text), Line (replicate 40 CHR ''-'')]"

definition commands_line :: string where
  "commands_line = ''Commands: look, take, move, use, inventory, quit''"

definition book_title_line :: string where
  "book_title_line = ''One of the books looks interesting. The title reads 'Secret Passages'.''"

definition note_on_desk_line :: string where
  "note_on_desk_line =
     ''A note on the desk reads: 'Pull the third candle to reveal the passage down.''
     @ [CHR 0x27]"

definition guard_lines :: "msg list" where
  "guard_lines =
     [Line ''The guard is mesmerized by your glittering gem!'',
      Line (CHR 0x27
        # ''Such beauty!' he exclaims, stepping aside to let you access the treasure.'')]"

definition opened_book_line :: string where
  "opened_book_line =
     ''You opened the book. It contains information about a secret passage in the study.''"

definition note_reveals_line :: string where
  "note_reveals_line =
     ''The note reveals that pulling the third candle in the study reveals a passage.''"

subsection \<open>The player\<close>

definition Player_init :: "string \<Rightarrow> int \<Rightarrow> Player" where
  "Player_init n m = \<lparr>name = n, inventory = [], location = ''Dungeon Cell'', max_inventory = m\<rparr>"

definition add_item :: "Player \<Rightarrow> string \<Rightarrow> error + Player" where
  "add_item player item =
     (if int (length (inventory player)) < max_inventory player
      then Inr (player\<lparr>inventory := inventory player @ [item]\<rparr>)
      else Inl (InventoryFullError (max_inventory player)))"

definition has_item :: "Player \<Rightarrow> string \<Rightarrow> bool" where
  "has_item player item = (item \<in> set (inventory player))"

definition remove_item :: "Player \<Rightarrow> string \<Rightarrow> Player \<times> bool" where
  "remove_item player item =
     (if item \<in> set (inventory player)
      then (player\<lparr>inventory := remove1 item (inventory player)\<rparr>, True)
      else (player, False))"

definition show_inventory :: "Player \<Rightarrow> msg list" where
  "show_inventory player =
     (if inventory player \<noteq> []
      then InventoryHeader (length (inventory player)) (max_inventory player)
             # map (\<lambda>item. Line (''- '' @ item)) (inventory player)
      else [Line ''Your bag is empty.''])"

subsection \<open>The world\<close>

definition create_world :: World where
  "create_world = map_of
    [(''Dungeon Cell'',
        \<lparr>description = ''You're in a dark stone cell. A rusty bed sits in the corner.'',
         exits = [(''forward'', ''Corridor'')],
         items = [''Crowbar''],
         obstacle = Some \<lparr>type = ''locked'', required_item = ''Cell Key'',
           message = ''The cell door is locked!'', direction = Some ''forward''\<rparr>\<rparr>),
     (''Corridor'',
        \<lparr>description = ''A dimly lit corridor stretches before you.'',
         exits = [(''forward'', ''Guard Room''), (''right'', ''Storage Room'')],
         items = [],
         obstacle = None\<rparr>),
     (''Guard Room'',
        \<lparr>description = ''A guard snores loudly in a chair. There's a door behind him.'',
         exits = [(''back'', ''Corridor''), (''forward'', ''Kitchen'')],
         items = [],
         obstacle = Some \<lparr>type = ''guard'', required_item = ''Torch'',
           message = ''The guard blocks your path!'', direction = Some ''forward''\<rparr>\<rparr>),
     (''Storage Room'',
        \<lparr>description = ''Dusty shelves line the walls. Something glints in the corner.'',
         exits = [(''back'', ''Corridor''), (''left'', ''Library'')],
         items = [''Rope''],
         obstacle = Some \<lparr>type = ''locked'', required_item = ''Iron Key'',
           message = ''The door to the library is locked!'', direction = Some ''left''\<rparr>\<rparr>),
     (''Kitchen'',
        \<lparr>description = ''A filthy kitchen with moldy food. A torch burns on the wall.'',
         exits = [(''back'', ''Guard Room''), (''right'', ''Armory'')],
         items = [''Torch'', ''Food''],
         obstacle = None\<rparr>),
     (''Armory'',
        \<lparr>description = ''Weapons rust on racks. A strongbox sits in the center.'',
         exits = [(''back'', ''Kitchen''), (''north'', ''Treasury'')],
         items = [],
         obstacle = Some \<lparr>type = ''chest'', required_item = ''Crowbar'',
           message = ''The strongbox is jammed shut!'', direction = None\<rparr>\<rparr>),
     (''Library'',
        \<lparr>description = ''Ancient books line crumbling shelves. A map peeks from a desk.'',
         exits = [(''right'', ''Storage Room''), (''forward'', ''Study'')],
         items = [''Map'', ''Book''],
         obstacle = None\<rparr>),
     (''Study'',
        \<lparr>description = ''A scholar's study with a desk and chair. A note reveals a secret.'',
         exits = [(''back'', ''Library''), (''down'', ''Secret Passage'')],
         items = [''Note''],
         obstacle = None\<rparr>),
     (''Secret Passage'',
        \<lparr>description = ''A narrow hidden passage with strange markings on the wall.'',
         exits = [(''up'', ''Study''), (''forward'', ''Torture Chamber'')],
         items = [''Gem''],
         obstacle = None\<rparr>),
     (''Torture Chamber'',
        \<lparr>description = ''A gruesome room with a gaping pit in the floor.'',
         exits = [(''back'', ''Secret Passage''), (''across'', ''Courtyard'')],
         items = [],
         obstacle = Some \<lparr>type = ''pit'', required_item = ''Rope'',
           message = ''The pit is too wide to jump!'', direction = Some ''across''\<rparr>\<rparr>),
     (''Treasury'',
        \<lparr>description = ''Glittering treasures line the walls. A suspicious guard stands watch.'',
         exits = [(''south'', ''Armory'')],
         items = [''Gold Coin''],
         obstacle = Some \<lparr>type = ''guard'', required_item = ''Gem'',
           message = ''A guard blocks access to the treasure!'', direction = None\<rparr>\<rparr>),
     (''Courtyard'',
        \<lparr>description = ''Moonlight reveals a massive gate. It's locked.'',
         exits = [(''forward'', ''Exit Gate'')],
         items = [],
         obstacle = Some \<lparr>type = ''gate'', required_item = ''Cell Key'',
           message = ''The gate is securely locked!'', direction = Some ''forward''\<rparr>\<rparr>),
     (''Exit Gate'',
        \<lparr>description = ''Freedom awaits beyond this point!'',
         exits = [],
         items = [],
         obstacle = None\<rparr>)]"

section \<open>The handlers\<close>

subsection \<open>The strongbox and the location-dependent narration\<close>

definition handle_locked_chest ::
  "Player \<Rightarrow> World \<Rightarrow> string \<Rightarrow> error option \<times> msg list \<times> Player \<times> World \<times> bool" where
  "handle_locked_chest player world item =
     (if location player = ''Armory'' \<and> item = ''Crowbar'' then
        (case world ''Armory'' of
           None \<Rightarrow> (Some (KeyError ''Armory''), [], player, world, False)
         | Some armory \<Rightarrow>
            (case obstacle armory of
               None \<Rightarrow> (None, [], player, world, False)
             | Some ob \<Rightarrow>
                if type ob = ''chest'' then
                  (None, [Line ''You pry open the strongbox with the crowbar!'',
                    Line ''You found a Cell Key and an Iron Key inside!''],
                   fst (remove_item player ''Crowbar''),
                   world(''Armory'' \<mapsto>
                     armory\<lparr>items := items armory @ [''Cell Key'', ''Iron Key''],
                            obstacle := None\<rparr>),
                   True)
                else (None, [], player, world, False)))
      else (None, [], player, world, False))"

definition handle_special_interactions :: "Player \<Rightarrow> World \<Rightarrow> result" where
  "handle_special_interactions player world =
     (case (if location player = ''Library'' then
              (case world ''Library'' of
                 None \<Rightarrow> Inl (KeyError ''Library'')
               | Some library \<Rightarrow>
                  Inr (if ''Book'' \<in> set (items library) then [Line book_title_line] else []))
            else Inr []) of
        Inl e \<Rightarrow> (Some e, [], player, world)
      | Inr out1 \<Rightarrow>
         (case (if location player = ''Study'' then
                  (case world ''Study'' of
                     None \<Rightarrow> Inl (KeyError ''Study'')
                   | Some study \<Rightarrow>
                      Inr (if ''Note'' \<in> set (items study) then [Line note_on_desk_line] else []))
                else Inr []) of
            Inl e \<Rightarrow> (Some e, out1, player, world)
          | Inr out2 \<Rightarrow>
             if location player = ''Treasury'' \<and> has_item player ''Gem'' then
               (case world ''Treasury'' of
                  None \<Rightarrow>
                    (Some (KeyError ''Treasury''),
                     out1 @ out2 @ guard_lines, player, world)
                | Some treasury \<Rightarrow>
                    (None, out1 @ out2 @ guard_lines, player,
                     world(''Treasury'' \<mapsto> treasury\<lparr>obstacle := None\<rparr>)))
             else (None, out1 @ out2, player, world)))"

subsection \<open>look and take\<close>

definition handle_look :: "Player \<Rightarrow> World \<Rightarrow> result" where
  "handle_look player world =
     (case world (location player) of
        None \<Rightarrow> (Some (KeyError (location player)), [], player, world)
      | Some current_room \<Rightarrow>
         (let out =
            [Line (description current_room)]
            @ (if items current_room \<noteq> [] then Line ''You see:'' # map (\<lambda>item. Line (''- '' @ item)) (items current_room)
               else [Line ''There are no items of interest here.''])
            @ (case obstacle current_room of
                 None \<Rightarrow> []
               | Some ob \<Rightarrow> [Line (''! '' @ message ob)])
          in case handle_special_interactions player world of
               (e, out2, player', world') \<Rightarrow> (e, out @ out2, player', world')))"

definition handle_take :: "Player \<Rightarrow> World \<Rightarrow> int option \<Rightarrow> result" where
  "handle_take player world choice =
     (case world (location player) of
        None \<Rightarrow> (Some (KeyError (location player)), [], player, world)
      | Some current_room \<Rightarrow>
         if items current_room = [] then (None, [Line ''There's nothing to take here.''], player, world)
         else
           (let out = Line ''What would you like to take?'' # numbered (items current_room) in
            case choice of
              None \<Rightarrow> (None, out @ [Line ''Invalid choice.''], player, world)
            | Some c \<Rightarrow>
               if c = 0 then (None, out, player, world)
               else
                 (case py_index (items current_room) (c - 1) of
                    None \<Rightarrow> (None, out @ [Line ''Invalid choice.''], player, world)
                  | Some item \<Rightarrow>
                     (case add_item player item of
                        Inl e \<Rightarrow> (Some e, out, player, world)
                      | Inr player' \<Rightarrow>
                         (None,
                          out @ [Line (''You picked up the '' @ item @ ''.'')]
                              @ (if item = ''Book'' then [Line opened_book_line]
                                 else if item = ''Note'' then [Line note_reveals_line]
                                 else []),
                          player',
                          world(location player \<mapsto>
                            current_room\<lparr>items := remove1 item (items current_room)\<rparr>))))))"

subsection \<open>use\<close>

text \<open>
  \<^verbatim>\<open>handle_use_item\<close> is modelled in two halves. The first (the source's lines up to the
  assignment of \<^verbatim>\<open>item_to_use\<close>) settles which item is used, or returns early with \<open>None\<close>;
  \<^verbatim>\<open>required_item\<close> counts as given when it is neither \<^verbatim>\<open>None\<close> nor the empty string. The
  second applies the item: the strongbox first, then the obstacle of the current room.
\<close>

definition select_item_to_use ::
  "Player \<Rightarrow> string option \<Rightarrow> int option \<Rightarrow> msg list \<times> string option" where
  "select_item_to_use player required choice =
     (if inventory player = [] then ([Line ''You don't have any items to use.''], None)
      else
        (case (case required of
                 None \<Rightarrow> None
               | Some r \<Rightarrow> if r = [] then None else Some r) of
           Some r \<Rightarrow>
             if \<not> has_item player r then ([Line (''You need a '' @ r @ '' for this, but you don't have one.'')], None)
             else ([], Some r)
         | None \<Rightarrow>
            (let out = Line ''Which item would you like to use?'' # numbered (inventory player) in
             case choice of
               None \<Rightarrow> (out @ [Line ''Invalid choice.''], None)
             | Some c \<Rightarrow>
                if c = 0 then (out, None)
                else
                  (case py_index (inventory player) (c - 1) of
                     None \<Rightarrow> (out @ [Line ''Invalid choice.''], None)
                   | Some item \<Rightarrow> (out, Some item)))))"

definition apply_item_to_use :: "Player \<Rightarrow> World \<Rightarrow> string \<Rightarrow> result" where
  "apply_item_to_use player world item_to_use =
     (case handle_locked_chest player world item_to_use of
        (Some e, out, player', world', _) \<Rightarrow> (Some e, out, player', world')
      | (None, out, player', world', True) \<Rightarrow> (None, out, player', world')
      | (None, out, player', world', False) \<Rightarrow>
         (case world' (location player') of
            None \<Rightarrow> (Some (KeyError (location player')), out, player', world')
          | Some current_room \<Rightarrow>
             (case (case obstacle current_room of
                      None \<Rightarrow> None
                    | Some ob \<Rightarrow> if item_to_use = required_item ob then Some ob else None) of
                Some ob \<Rightarrow>
                  (None,
                   out @ [Line (''You used the '' @ item_to_use @ '' successfully!'')]
                       @ (if type ob = ''locked'' then [Line (''You unlocked the door with the '' @ item_to_use @ ''.'')]
                          else if type ob = ''guard'' then [Line (''You distracted the guard with the '' @ item_to_use @ ''.'')]
                          else if type ob = ''pit'' then [Line (''You used the '' @ item_to_use @ '' to cross the pit safely.'')]
                          else if type ob = ''gate'' then [Line (''You unlocked the gate with the '' @ item_to_use @ ''.'')]
                          else []),
                   (if item_to_use \<in> set [''Cell Key'', ''Iron Key'']
                    then fst (remove_item player' item_to_use) else player'),
                   world'(location player' \<mapsto> current_room\<lparr>obstacle := None\<rparr>))
              | None \<Rightarrow> (None, out @ [Line (''You used the '' @ item_to_use @ '', but nothing happened.'')], player', world'))))"

definition handle_use_item ::
  "Player \<Rightarrow> World \<Rightarrow> string option \<Rightarrow> int option \<Rightarrow> result" where
  "handle_use_item player world required choice =
     (case select_item_to_use player required choice of
        (out, None) \<Rightarrow> (None, out, player, world)
      | (out, Some item_to_use) \<Rightarrow>
         (case apply_item_to_use player world item_to_use of
            (e, out2, player', world') \<Rightarrow> (e, out @ out2, player', world')))"

subsection \<open>move\<close>

text \<open>
  \<open>answer\<close> is the reply to the question asked at an obstacle; \<open>choice2\<close> is what the menu of
  \<^verbatim>\<open>handle_use_item\<close> would read, should that menu be reached from here.
\<close>

definition handle_movement_execution ::
  "Player \<Rightarrow> World \<Rightarrow> Room \<Rightarrow> string \<Rightarrow> bool \<Rightarrow> int option \<Rightarrow> result" where
  "handle_movement_execution player world current_room dir answer choice2 =
     (case (case obstacle current_room of
              None \<Rightarrow> None
            | Some ob \<Rightarrow>
               if direction ob = Some dir \<or> direction ob = None then Some ob else None) of
        Some ob \<Rightarrow>
          (if answer then
             (case handle_use_item player world (Some (required_item ob)) choice2 of
                (e, out, player', world') \<Rightarrow> (e, Line (''! '' @ message ob) # out, player', world'))
           else (None, [Line (''! '' @ message ob)], player, world))
      | None \<Rightarrow>
          (case map_of (exits current_room) dir of
             None \<Rightarrow> (Some (KeyError dir), [], player, world)
           | Some new_location \<Rightarrow>
              (None, [Line (''You move '' @ dir @ '' to the '' @ new_location @ ''...'')],
               player\<lparr>location := new_location\<rparr>, world)))"

definition handle_move :: "Player \<Rightarrow> World \<Rightarrow> int option \<Rightarrow> bool \<Rightarrow> int option \<Rightarrow> result" where
  "handle_move player world choice answer choice2 =
     (case world (location player) of
        None \<Rightarrow> (Some (KeyError (location player)), [], player, world)
      | Some current_room \<Rightarrow>
         (let available_exits = map fst (exits current_room) in
          if available_exits = [] then (None, [Line ''There are no exits from here.''], player, world)
          else
            (let out = Line ''Available directions:'' # numbered available_exits in
             case choice of
               None \<Rightarrow>
                 (Some (InvalidCommandError ''Please enter a valid number''), out, player, world)
             | Some c \<Rightarrow>
                if c = 0 then (None, out, player, world)
                else if \<not> (0 \<le> c - 1 \<and> c - 1 < int (length available_exits)) then
                  (Some (InvalidCommandError ''Invalid direction choice''), out, player, world)
                else
                  (case handle_movement_execution player world current_room
                          (available_exits ! nat (c - 1)) answer choice2 of
                     (e, out2, player', world') \<Rightarrow> (e, out @ out2, player', world')))))"

section \<open>The game loop\<close>

text \<open>
  One turn of the loop reads the command (already lower-cased) and whatever the handler of
  that command asks for. The loop stops at \<^verbatim>\<open>quit\<close>, at victory, or at an exception that is
  not a \<^verbatim>\<open>GameError\<close>; a \<^verbatim>\<open>GameError\<close> is reported and the loop goes on, without the check
  for victory.
\<close>

datatype turn = Turn (command: string) (number: "int option") (answer: bool)
  (number2: "int option")

record game =
  player :: Player
  world :: World

datatype status = Running | Victory | Quit | Crashed

definition is_GameError :: "error \<Rightarrow> bool" where
  "is_GameError e = (case e of InventoryFullError _ \<Rightarrow> True
                              | InvalidCommandError _ \<Rightarrow> True
                              | KeyError _ \<Rightarrow> False)"

definition after_command :: "result \<Rightarrow> status \<times> msg list \<times> game" where
  "after_command r =
     (case r of
        (Some e, out, player', world') \<Rightarrow>
          if is_GameError e
          then (Running, out @ [Error e], \<lparr>player = player', world = world'\<rparr>)
          else (Crashed, out @ [Unexpected e], \<lparr>player = player', world = world'\<rparr>)
      | (None, out, player', world') \<Rightarrow>
          if location player' = ''Exit Gate''
          then (Victory, out @ print_header ''VICTORY''
                    @ [Line (''Congratulations '' @ name player' @ ''! You've escaped!'')],
                \<lparr>player = player', world = world'\<rparr>)
          else (Running, out, \<lparr>player = player', world = world'\<rparr>))"

definition game_turn :: "game \<Rightarrow> turn \<Rightarrow> status \<times> msg list \<times> game" where
  "game_turn g t =
     (let here = Line (''[Current Location: '' @ location (player g) @ '']'');
          (st, out, g') =
            (if command t = ''look'' then after_command (handle_look (player g) (world g))
             else if command t = ''take'' then
               after_command (handle_take (player g) (world g) (number t))
             else if command t = ''move'' then
               after_command (handle_move (player g) (world g) (number t) (answer t) (number2 t))
             else if command t = ''use'' then
               after_command (handle_use_item (player g) (world g) None (number t))
             else if command t \<in> set [''inventory'', ''i''] then
               after_command (None, show_inventory (player g), player g, world g)
             else if command t \<in> set [''quit'', ''q''] then (Quit, [Line ''Thanks for playing!''], g)
             else if command t \<in> set [''help'', ''h''] then
               after_command (None, [Line commands_line], player g, world g)
             else
               after_command
                 (Some (InvalidCommandError ''Invalid command. Type 'help' for commands.''),
                  [], player g, world g))
      in (st, here # out, g'))"

fun main_loop :: "game \<Rightarrow> turn list \<Rightarrow> status \<times> msg list \<times> game" where
  "main_loop g [] = (Running, [], g)"
| "main_loop g (t # ts) =
     (case game_turn g t of
        (Running, out, g') \<Rightarrow>
          (case main_loop g' ts of (st, out2, g'') \<Rightarrow> (st, out @ out2, g''))
      | (st, out, g') \<Rightarrow> (st, out, g'))"

definition main :: "string \<Rightarrow> turn list \<Rightarrow> status \<times> msg list \<times> game" where
  "main player_name ts =
     (case main_loop \<lparr>player = Player_init player_name 4, world = create_world\<rparr> ts of
        (st, out, g) \<Rightarrow> (st, print_header ''DUNGEON ESCAPE ADVENTURE''
               @ [Line ''You wake up in a mysterious dungeon cell...'',
                  Line ''Find a way to escape through the exit gate!'',
                  Line commands_line] @ out, g))"

section \<open>Worlds and invariants\<close>

text \<open>
  The worlds that the handlers are run on: the world built by \<^verbatim>\<open>create_world\<close>, and the world
  that any handler leaves behind when run on such a world, whoever the player is (any
  location, inventory and capacity) and whatever is typed.
\<close>

inductive derived :: "World \<Rightarrow> bool" where
  derived_create: "derived create_world"
| derived_look: "derived w \<Longrightarrow> handle_look p w = (e, out, p', w') \<Longrightarrow> derived w'"
| derived_take: "derived w \<Longrightarrow> handle_take p w c = (e, out, p', w') \<Longrightarrow> derived w'"
| derived_move: "derived w \<Longrightarrow> handle_move p w c a c2 = (e, out, p', w') \<Longrightarrow> derived w'"
| derived_use: "derived w \<Longrightarrow> handle_use_item p w r c = (e, out, p', w') \<Longrightarrow> derived w'"

text \<open>
  The assignments to the world that occur in the source: none; \<^verbatim>\<open>items.remove(item)\<close> in
  \<^verbatim>\<open>handle_take\<close>; \<^verbatim>\<open>obstacle = None\<close> in \<^verbatim>\<open>handle_use_item\<close> and
  \<^verbatim>\<open>handle_special_interactions\<close>; the opening of the strongbox in \<^verbatim>\<open>handle_locked_chest\<close>.
\<close>

inductive changed :: "World \<Rightarrow> World \<Rightarrow> bool" where
  unchanged: "changed w w"
| item_taken: "w k = Some r \<Longrightarrow> x \<in> set (items r) \<Longrightarrow>
     changed w (w(k \<mapsto> r\<lparr>items := remove1 x (items r)\<rparr>))"
| obstacle_cleared: "w k = Some r \<Longrightarrow> changed w (w(k \<mapsto> r\<lparr>obstacle := None\<rparr>))"
| chest_opened: "w ''Armory'' = Some r \<Longrightarrow> obstacle r = Some ob \<Longrightarrow>
     changed w (w(''Armory'' \<mapsto> r\<lparr>items := items r @ [''Cell Key'', ''Iron Key''],
                                  obstacle := None\<rparr>))"

text \<open>No room lists an item twice, and the Armory lists nothing while its obstacle stands.\<close>

definition items_sound :: "World \<Rightarrow> bool" where
  "items_sound w =
     (\<forall>k r. w k = Some r \<longrightarrow>
        distinct (items r) \<and> (k = ''Armory'' \<and> obstacle r \<noteq> None \<longrightarrow> items r = []))"

text \<open>
  The second world has the rooms of the first, with the same descriptions and exits, and no
  obstacle where the first has none.
\<close>

definition structure_kept :: "World \<Rightarrow> World \<Rightarrow> bool" where
  "structure_kept w w' =
     (dom w' = dom w \<and>
      (\<forall>k r. w k = Some r \<longrightarrow>
         (\<exists>r'. w' k = Some r' \<and> description r' = description r \<and> exits r' = exits r
               \<and> (obstacle r = None \<longrightarrow> obstacle r' = None))))"

text \<open>
  The player is in the cell with at most the Crowbar, the cell holds at most the Crowbar, its
  only exit is \<^verbatim>\<open>forward\<close>, and its obstacle blocks that exit and requires the Cell Key.
\<close>

definition locked_in :: "Player \<Rightarrow> World \<Rightarrow> bool" where
  "locked_in p w =
     (location p = ''Dungeon Cell''
      \<and> set (inventory p) \<subseteq> {''Crowbar''}
      \<and> (\<exists>r ob. w ''Dungeon Cell'' = Some r
            \<and> exits r = [(''forward'', ''Corridor'')]
            \<and> set (items r) \<subseteq> {''Crowbar''}
            \<and> obstacle r = Some ob
            \<and> required_item ob = ''Cell Key''
            \<and> direction ob = Some ''forward''))"

section \<open>Facts about the building blocks\<close>

lemma py_index_in_set: "py_index xs i = Some x \<Longrightarrow> x \<in> set xs"
  by (auto simp: py_index_def Let_def split: if_splits)

lemma select_item_in_inventory:
  "select_item_to_use p required choice = (out, Some item) \<Longrightarrow> item \<in> set (inventory p)"
  by (auto simp: select_item_to_use_def has_item_def Let_def
      split: if_splits option.splits dest: py_index_in_set)

lemma fst_remove_item:
  "fst (remove_item p x) = p\<lparr>inventory := remove1 x (inventory p)\<rparr>"
  by (simp add: remove_item_def remove1_idem)

text \<open>Outside the strongbox case, \<^verbatim>\<open>handle_locked_chest\<close> returns \<^verbatim>\<open>False\<close> and touches nothing.\<close>

lemma handle_locked_chest_skips:
  assumes "w (location p) = Some room"
    and "\<not> (location p = ''Armory'' \<and> item = ''Crowbar''
            \<and> (\<exists>ob. obstacle room = Some ob \<and> type ob = ''chest''))"
  shows "handle_locked_chest p w item = (None, [], p, w, False)"
  using assms by (auto simp: handle_locked_chest_def split: option.splits)

text \<open>Using an item changes neither where the player is nor who the player is.\<close>

lemma handle_locked_chest_player:
  "handle_locked_chest p w item = (e, out, p', w', b) \<Longrightarrow>
     location p' = location p \<and> name p' = name p \<and> max_inventory p' = max_inventory p"
  by (auto simp: handle_locked_chest_def fst_remove_item split: if_splits option.splits)

lemma apply_item_to_use_player:
  assumes "apply_item_to_use p w item = (e, out, p', w')"
  shows "location p' = location p \<and> name p' = name p \<and> max_inventory p' = max_inventory p"
proof -
  obtain e1 out1 p1 w1 b where c: "handle_locked_chest p w item = (e1, out1, p1, w1, b)"
    by (metis prod_cases5)
  from handle_locked_chest_player[OF c] assms c show ?thesis
    by (auto simp: apply_item_to_use_def fst_remove_item split: option.splits bool.splits if_splits)
qed

lemma handle_use_item_player:
  assumes "handle_use_item p w required choice = (e, out, p', w')"
  shows "location p' = location p \<and> name p' = name p \<and> max_inventory p' = max_inventory p"
proof (cases "select_item_to_use p required choice")
  case (Pair out1 sel)
  show ?thesis
  proof (cases sel)
    case None
    with Pair assms show ?thesis by (simp add: handle_use_item_def)
  next
    case (Some item)
    obtain e2 out2 p2 w2 where a: "apply_item_to_use p w item = (e2, out2, p2, w2)"
      by (metis prod_cases4)
    with Pair Some assms have "p' = p2" by (simp add: handle_use_item_def)
    with apply_item_to_use_player[OF a] show ?thesis by simp
  qed
qed

lemma hinted_use_clears_obstacle:
  assumes room: "w (location p) = Some room"
    and ob: "obstacle room = Some ob"
    and req: "required_item ob \<noteq> []"
    and has: "required_item ob \<in> set (inventory p)"
  shows "\<exists>out p' room'. handle_use_item p w (Some (required_item ob)) c2
             = (None, out, p', w(location p \<mapsto> room'))
           \<and> location p' = location p \<and> obstacle room' = None \<and> exits room' = exits room"
proof -
  have ne: "inventory p \<noteq> []" using has by auto
  have sel: "select_item_to_use p (Some (required_item ob)) c2 = ([], Some (required_item ob))"
    using ne req has by (simp add: select_item_to_use_def has_item_def)
  show ?thesis
  proof (cases "location p = ''Armory'' \<and> required_item ob = ''Crowbar'' \<and> type ob = ''chest''")
    case True
    with room ob sel have "handle_use_item p w (Some (required_item ob)) c2
        = (None, [Line ''You pry open the strongbox with the crowbar!'',
                  Line ''You found a Cell Key and an Iron Key inside!''],
           p\<lparr>inventory := remove1 ''Crowbar'' (inventory p)\<rparr>,
           w(location p \<mapsto> room\<lparr>items := items room @ [''Cell Key'', ''Iron Key''],
                                   obstacle := None\<rparr>))"
      by (simp add: handle_use_item_def apply_item_to_use_def handle_locked_chest_def
          fst_remove_item)
    moreover have "location (p\<lparr>inventory := remove1 ''Crowbar'' (inventory p)\<rparr>) = location p"
      "obstacle (room\<lparr>items := items room @ [''Cell Key'', ''Iron Key''],
                                   obstacle := None\<rparr>) = None"
      "exits (room\<lparr>items := items room @ [''Cell Key'', ''Iron Key''],
                                   obstacle := None\<rparr>) = exits room" by simp_all
    ultimately show ?thesis by blast
  next
    case False
    then have "\<not> (location p = ''Armory'' \<and> required_item ob = ''Crowbar''
            \<and> (\<exists>ob'. obstacle room = Some ob' \<and> type ob' = ''chest''))"
      using ob by auto
    from handle_locked_chest_skips[where w = w and p = p, OF room this] room ob sel
    have "\<exists>out p'. handle_use_item p w (Some (required_item ob)) c2
             = (None, out, p', w(location p \<mapsto> room\<lparr>obstacle := None\<rparr>))
           \<and> location p' = location p"
      by (simp add: handle_use_item_def apply_item_to_use_def fst_remove_item)
    then obtain out p' where "handle_use_item p w (Some (required_item ob)) c2
             = (None, out, p', w(location p \<mapsto> room\<lparr>obstacle := None\<rparr>))"
        "location p' = location p" by blast
    moreover have "obstacle (room\<lparr>obstacle := None\<rparr>) = None"
      "exits (room\<lparr>obstacle := None\<rparr>) = exits room" by simp_all
    ultimately show ?thesis by blast
  qed
qed

lemma map_of_nth_key:
  assumes "i < length xs"
  shows "\<exists>v. map_of xs (map fst xs ! i) = Some v"
proof -
  have "map fst xs ! i \<in> fst ` set xs" using assms
    by (metis length_map nth_mem set_map)
  then show ?thesis by (metis domD dom_map_of_conv_image_fst)
qed

lemma movement_blocked:
  assumes "obstacle room = Some ob"
    and "direction ob = Some d \<or> direction ob = None"
  shows "handle_movement_execution p w room d ans c2 =
          (if ans then
             (case handle_use_item p w (Some (required_item ob)) c2 of
                (e, out, p', w') \<Rightarrow> (e, Line (''! '' @ message ob) # out, p', w'))
           else (None, [Line (''! '' @ message ob)], p, w))"
  using assms by (auto simp: handle_movement_execution_def)

lemma handle_move_valid:
  assumes "w (location p) = Some room"
    and "1 \<le> c" "c \<le> int (length (exits room))"
  shows "handle_move p w (Some c) ans c2 =
          (case handle_movement_execution p w room (map fst (exits room) ! nat (c - 1)) ans c2 of
             (e, out2, p', w') \<Rightarrow>
               (e, (Line ''Available directions:'' # numbered (map fst (exits room))) @ out2,
                p', w'))"
proof -
  have "exits room \<noteq> []" using assms(2,3) by auto
  then show ?thesis using assms
    by (simp add: handle_move_def Let_def split: prod.splits)
qed

lemma handle_move_open:
  assumes room: "w (location p) = Some room"
    and c: "1 \<le> c" "c \<le> int (length (exits room))"
    and ob: "obstacle room = None"
    and target: "map_of (exits room) (map fst (exits room) ! nat (c - 1)) = Some target"
  shows "\<exists>out. handle_move p w (Some c) ans c2 = (None, out, p\<lparr>location := target\<rparr>, w)"
proof -
  have ne: "exits room \<noteq> []" using c by auto
  show ?thesis using room c ob target ne
    by (simp add: handle_move_def handle_movement_execution_def Let_def)
qed

lemma apply_item_to_use_mismatch:
  assumes "w (location p) = Some room"
    and "\<not> (location p = ''Armory'' \<and> item = ''Crowbar''
            \<and> (\<exists>ob. obstacle room = Some ob \<and> type ob = ''chest''))"
    and "obstacle room = None \<or> (\<exists>ob. obstacle room = Some ob \<and> item \<noteq> required_item ob)"
  shows "apply_item_to_use p w item =
           (None, [Line (''You used the '' @ item @ '', but nothing happened.'')], p, w)"
proof -
  have "handle_locked_chest p w item = (None, [], p, w, False)"
    using assms(1,2) by (rule handle_locked_chest_skips)
  then show ?thesis using assms(1,3)
    by (auto simp: apply_item_to_use_def)
qed

subsection \<open>Rooms of the initial world\<close>

lemma create_world_Armory: "create_world ''Armory'' = Some
        \<lparr>description = ''Weapons rust on racks. A strongbox sits in the center.'',
         exits = [(''back'', ''Kitchen''), (''north'', ''Treasury'')],
         items = [],
         obstacle = Some \<lparr>type = ''chest'', required_item = ''Crowbar'',
           message = ''The strongbox is jammed shut!'', direction = None\<rparr>\<rparr>"
  by (simp add: create_world_def)

lemma create_world_Guard_Room: "create_world ''Guard Room'' = Some
        \<lparr>description = ''A guard snores loudly in a chair. There's a door behind him.'',
         exits = [(''back'', ''Corridor''), (''forward'', ''Kitchen'')],
         items = [],
         obstacle = Some \<lparr>type = ''guard'', required_item = ''Torch'',
           message = ''The guard blocks your path!'', direction = Some ''forward''\<rparr>\<rparr>"
  by (simp add: create_world_def)

lemma create_world_Dungeon_Cell: "create_world ''Dungeon Cell'' = Some
        \<lparr>description = ''You're in a dark stone cell. A rusty bed sits in the corner.'',
         exits = [(''forward'', ''Corridor'')],
         items = [''Crowbar''],
         obstacle = Some \<lparr>type = ''locked'', required_item = ''Cell Key'',
           message = ''The cell door is locked!'', direction = Some ''forward''\<rparr>\<rparr>"
  by (simp add: create_world_def)

lemma create_world_Kitchen: "create_world ''Kitchen'' = Some
        \<lparr>description = ''A filthy kitchen with moldy food. A torch burns on the wall.'',
         exits = [(''back'', ''Guard Room''), (''right'', ''Armory'')],
         items = [''Torch'', ''Food''],
         obstacle = None\<rparr>"
  by (simp add: create_world_def)

lemma create_world_Treasury: "create_world ''Treasury'' = Some
        \<lparr>description = ''Glittering treasures line the walls. A suspicious guard stands watch.'',
         exits = [(''south'', ''Armory'')],
         items = [''Gold Coin''],
         obstacle = Some \<lparr>type = ''guard'', required_item = ''Gem'',
           message = ''A guard blocks access to the treasure!'', direction = None\<rparr>\<rparr>"
  by (simp add: create_world_def)

section \<open>Using items\<close>

text \<open>
  Claim C3. Whenever the player stands in the Armory, the Armory's obstacle is of type
  \<^verbatim>\<open>chest\<close> and the item settled by \<^verbatim>\<open>handle_use_item\<close> is the Crowbar (which is then in the
  inventory), the use ends in the strongbox branch: the Armory's obstacle becomes absent,
  \<^verbatim>\<open>Cell Key\<close> and \<^verbatim>\<open>Iron Key\<close> are appended to the Armory's items and one Crowbar leaves the
  inventory. The branch runs before the generic resolution: the result does not depend on
  the item the obstacle requires, and none of the generic lines is printed.
\<close>

theorem chest_special_case:
  assumes "location p = ''Armory''"
    and "w ''Armory'' = Some armory"
    and "obstacle armory = Some ob"
    and "type ob = ''chest''"
    and "select_item_to_use p required choice = (out, Some ''Crowbar'')"
  shows "handle_use_item p w required choice =
           (None,
            out @ [Line ''You pry open the strongbox with the crowbar!'',
                   Line ''You found a Cell Key and an Iron Key inside!''],
            p\<lparr>inventory := remove1 ''Crowbar'' (inventory p)\<rparr>,
            w(''Armory'' \<mapsto> armory\<lparr>items := items armory @ [''Cell Key'', ''Iron Key''],
                                   obstacle := None\<rparr>))
         \<and> ''Crowbar'' \<in> set (inventory p)"
  using assms select_item_in_inventory[OF assms(5)]
  by (simp add: handle_use_item_def apply_item_to_use_def handle_locked_chest_def fst_remove_item)

theorem chest_special_case_witness:
  "location \<lparr>name = ''Ann'', inventory = [''Torch'', ''Crowbar''], location = ''Armory'',
              max_inventory = 4\<rparr> = ''Armory''
   \<and> select_item_to_use \<lparr>name = ''Ann'', inventory = [''Torch'', ''Crowbar''],
         location = ''Armory'', max_inventory = 4\<rparr> None (Some 2)
       = ([Line ''Which item would you like to use?'', Numbered 1 ''Torch'',
           Numbered 2 ''Crowbar''], Some ''Crowbar'')
   \<and> handle_use_item \<lparr>name = ''Ann'', inventory = [''Torch'', ''Crowbar''],
         location = ''Armory'', max_inventory = 4\<rparr> create_world None (Some 2)
       = (None,
          [Line ''Which item would you like to use?'', Numbered 1 ''Torch'',
           Numbered 2 ''Crowbar'', Line ''You pry open the strongbox with the crowbar!'',
           Line ''You found a Cell Key and an Iron Key inside!''],
          \<lparr>name = ''Ann'', inventory = [''Torch''], location = ''Armory'', max_inventory = 4\<rparr>,
          create_world(''Armory'' \<mapsto>
            \<lparr>description = ''Weapons rust on racks. A strongbox sits in the center.'',
             exits = [(''back'', ''Kitchen''), (''north'', ''Treasury'')],
             items = [''Cell Key'', ''Iron Key''],
             obstacle = None\<rparr>))"
proof -
  let ?p = "\<lparr>name = ''Ann'', inventory = [''Torch'', ''Crowbar''], location = ''Armory'',
              max_inventory = 4\<rparr>"
  let ?ob = "\<lparr>type = ''chest'', required_item = ''Crowbar'',
           message = ''The strongbox is jammed shut!'', direction = None\<rparr>"
  let ?armory = "\<lparr>description = ''Weapons rust on racks. A strongbox sits in the center.'',
         exits = [(''back'', ''Kitchen''), (''north'', ''Treasury'')],
         items = [],
         obstacle = Some ?ob\<rparr>"
  have sel: "select_item_to_use ?p None (Some 2)
       = ([Line ''Which item would you like to use?'', Numbered 1 ''Torch'',
           Numbered 2 ''Crowbar''], Some ''Crowbar'')"
    by (simp add: select_item_to_use_def numbered_def py_index_def)
  have loc: "location ?p = ''Armory''" by simp
  have ob: "obstacle ?armory = Some ?ob" by simp
  have ty: "type ?ob = ''chest''" by simp
  have "handle_use_item ?p create_world None (Some 2) = (None,
          [Line ''Which item would you like to use?'', Numbered 1 ''Torch'',
           Numbered 2 ''Crowbar''] @ [Line ''You pry open the strongbox with the crowbar!'',
           Line ''You found a Cell Key and an Iron Key inside!''],
          ?p\<lparr>inventory := remove1 ''Crowbar'' (inventory ?p)\<rparr>,
          create_world(''Armory'' \<mapsto>
            ?armory\<lparr>items := items ?armory @ [''Cell Key'', ''Iron Key''], obstacle := None\<rparr>))"
    using chest_special_case[where w = create_world, OF loc create_world_Armory ob ty sel]
    by (rule conjunct1)
  then show ?thesis using sel by simp
qed

text \<open>
  Claim C6. When the strongbox case does not apply and the current room has no obstacle, or
  has one that requires another item than the one used, \<^verbatim>\<open>handle_use_item\<close> prints that
  nothing happened and returns the player and the world as they were: the obstacle field
  and the inventory are unchanged, and the item is not consumed.
\<close>

theorem use_without_effect:
  assumes "select_item_to_use p required choice = (out, Some item)"
    and "w (location p) = Some room"
    and "\<not> (location p = ''Armory'' \<and> item = ''Crowbar''
            \<and> (\<exists>ob. obstacle room = Some ob \<and> type ob = ''chest''))"
    and "obstacle room = None \<or> (\<exists>ob. obstacle room = Some ob \<and> item \<noteq> required_item ob)"
  shows "handle_use_item p w required choice =
           (None, out @ [Line (''You used the '' @ item @ '', but nothing happened.'')], p, w)"
proof -
  have "handle_locked_chest p w item = (None, [], p, w, False)"
    using assms(2,3) by (rule handle_locked_chest_skips)
  then show ?thesis using assms(1,2,4)
    by (auto simp: handle_use_item_def apply_item_to_use_def)
qed

theorem use_without_effect_witness:
  "select_item_to_use \<lparr>name = ''Ann'', inventory = [''Rope''],
       location = ''Guard Room'', max_inventory = 4\<rparr> (Some ''Rope'') None = ([], Some ''Rope'')
   \<and> handle_use_item \<lparr>name = ''Ann'', inventory = [''Rope''],
          location = ''Guard Room'', max_inventory = 4\<rparr> create_world (Some ''Rope'') None
        = (None, [Line ''You used the Rope, but nothing happened.''],
           \<lparr>name = ''Ann'', inventory = [''Rope''], location = ''Guard Room'', max_inventory = 4\<rparr>,
           create_world)"
proof -
  let ?p = "\<lparr>name = ''Ann'', inventory = [''Rope''],
       location = ''Guard Room'', max_inventory = 4\<rparr>"
  let ?ob = "\<lparr>type = ''guard'', required_item = ''Torch'',
           message = ''The guard blocks your path!'', direction = Some ''forward''\<rparr>"
  let ?room = "\<lparr>description = ''A guard snores loudly in a chair. There's a door behind him.'',
         exits = [(''back'', ''Corridor''), (''forward'', ''Kitchen'')],
         items = [],
         obstacle = Some ?ob\<rparr>"
  have sel: "select_item_to_use ?p (Some ''Rope'') None = ([], Some ''Rope'')"
    by (simp add: select_item_to_use_def has_item_def)
  have room: "create_world (location ?p) = Some ?room"
    by (simp add: create_world_Guard_Room)
  have nochest: "\<not> (location ?p = ''Armory'' \<and> ''Rope'' = ''Crowbar''
            \<and> (\<exists>ob. obstacle ?room = Some ob \<and> type ob = ''chest''))"
    by simp
  have mismatch: "obstacle ?room = None
      \<or> (\<exists>ob. obstacle ?room = Some ob \<and> ''Rope'' \<noteq> required_item ob)"
    by simp
  show ?thesis
    using use_without_effect[where w = create_world, OF sel room nochest mismatch] sel
    by simp
qed

text \<open>
  Claim C2, as stated, fails in the Armory: the Crowbar is the item the strongbox requires,
  it is neither \<^verbatim>\<open>Cell Key\<close> nor \<^verbatim>\<open>Iron Key\<close>, and using it there removes it from the
  inventory.
\<close>

theorem use_crowbar_counterexample:
  "create_world ''Armory'' = Some
        \<lparr>description = ''Weapons rust on racks. A strongbox sits in the center.'',
         exits = [(''back'', ''Kitchen''), (''north'', ''Treasury'')],
         items = [],
         obstacle = Some \<lparr>type = ''chest'', required_item = ''Crowbar'',
           message = ''The strongbox is jammed shut!'', direction = None\<rparr>\<rparr>
   \<and> ''Crowbar'' \<noteq> ''Cell Key'' \<and> ''Crowbar'' \<noteq> ''Iron Key''
   \<and> fst (snd (snd (handle_use_item
         \<lparr>name = ''Bo'', inventory = [''Crowbar'', ''Rope''], location = ''Armory'',
          max_inventory = 4\<rparr> create_world None (Some 1))))
       = \<lparr>name = ''Bo'', inventory = [''Rope''], location = ''Armory'', max_inventory = 4\<rparr>"
  by (simp add: create_world_Armory handle_use_item_def select_item_to_use_def numbered_def
      py_index_def apply_item_to_use_def handle_locked_chest_def fst_remove_item)

text \<open>
  Claim C2, amended: in a room with an obstacle, and outside the strongbox case (the player
  in the Armory using the Crowbar on an obstacle of type \<^verbatim>\<open>chest\<close>), the item used is in the
  inventory and the use resolves the obstacle if and only if the item is the one the obstacle
  requires. Then the room's obstacle becomes absent and one occurrence of the item leaves
  the inventory exactly when the item is \<^verbatim>\<open>Cell Key\<close> or \<^verbatim>\<open>Iron Key\<close>; any other item stays.
  Otherwise the player and the world, and so the obstacle, are unchanged.
\<close>

theorem use_resolves_obstacle:
  assumes "select_item_to_use p required choice = (out, Some item)"
    and "w (location p) = Some room"
    and "obstacle room = Some ob"
    and "\<not> (location p = ''Armory'' \<and> item = ''Crowbar'' \<and> type ob = ''chest'')"
  shows "item \<in> set (inventory p) \<and>
         (\<exists>lines. handle_use_item p w required choice =
           (if item = required_item ob
            then (None, out @ lines,
                  p\<lparr>inventory := (if item = ''Cell Key'' \<or> item = ''Iron Key''
                                   then remove1 item (inventory p) else inventory p)\<rparr>,
                  w(location p \<mapsto> room\<lparr>obstacle := None\<rparr>))
            else (None, out @ lines, p, w)))"
proof -
  have chest: "handle_locked_chest p w item = (None, [], p, w, False)"
    using assms(2-4) by (intro handle_locked_chest_skips) auto
  have inv: "item \<in> set (inventory p)"
    using assms(1) by (rule select_item_in_inventory)
  show ?thesis
  proof (cases "item = required_item ob")
    case True
    with chest assms(1-3) inv show ?thesis
      by (simp add: handle_use_item_def apply_item_to_use_def fst_remove_item)
  next
    case False
    with chest assms(1-3) inv show ?thesis
      by (simp add: handle_use_item_def apply_item_to_use_def)
  qed
qed

theorem use_resolves_obstacle_witness:
  "select_item_to_use \<lparr>name = ''Ann'', inventory = [''Torch'', ''Cell Key''],
       location = ''Guard Room'', max_inventory = 4\<rparr> None (Some 1)
     = ([Line ''Which item would you like to use?'', Numbered 1 ''Torch'',
         Numbered 2 ''Cell Key''], Some ''Torch'')
   \<and> (\<exists>lines. handle_use_item \<lparr>name = ''Ann'', inventory = [''Torch'', ''Cell Key''],
          location = ''Guard Room'', max_inventory = 4\<rparr> create_world None (Some 1)
        = (None,
           [Line ''Which item would you like to use?'', Numbered 1 ''Torch'',
            Numbered 2 ''Cell Key''] @ lines,
           \<lparr>name = ''Ann'', inventory = [''Torch'', ''Cell Key''],
            location = ''Guard Room'', max_inventory = 4\<rparr>,
           create_world(''Guard Room'' \<mapsto>
             \<lparr>description = ''A guard snores loudly in a chair. There's a door behind him.'',
              exits = [(''back'', ''Corridor''), (''forward'', ''Kitchen'')],
              items = [],
              obstacle = None\<rparr>)))"
proof -
  let ?p = "\<lparr>name = ''Ann'', inventory = [''Torch'', ''Cell Key''],
       location = ''Guard Room'', max_inventory = 4\<rparr>"
  let ?ob = "\<lparr>type = ''guard'', required_item = ''Torch'',
           message = ''The guard blocks your path!'', direction = Some ''forward''\<rparr>"
  let ?room = "\<lparr>description = ''A guard snores loudly in a chair. There's a door behind him.'',
         exits = [(''back'', ''Corridor''), (''forward'', ''Kitchen'')],
         items = [],
         obstacle = Some ?ob\<rparr>"
  have sel: "select_item_to_use ?p None (Some 1)
     = ([Line ''Which item would you like to use?'', Numbered 1 ''Torch'',
         Numbered 2 ''Cell Key''], Some ''Torch'')"
    by (simp add: select_item_to_use_def numbered_def py_index_def)
  have room: "create_world (location ?p) = Some ?room"
    by (simp add: create_world_Guard_Room)
  have ob: "obstacle ?room = Some ?ob" by simp
  have nochest: "\<not> (location ?p = ''Armory'' \<and> ''Torch'' = ''Crowbar'' \<and> type ?ob = ''chest'')"
    by simp
  show ?thesis
    using use_resolves_obstacle[where w = create_world, OF sel room ob nochest] sel
    by simp
qed

section \<open>Moving\<close>

text \<open>
  Claim C1. For every room, and every direction that is one of its exits,
  \<^verbatim>\<open>handle_movement_execution\<close> takes its blocked branch exactly when the room has an obstacle
  whose direction is the attempted one or is absent. In the blocked branch the obstacle's
  message is printed first and the player's location is what it was, whatever the reply to
  the question and whatever the use of an item does; otherwise the player's location
  becomes the target of the chosen exit and nothing else changes.
\<close>

theorem movement_blocked_iff:
  assumes "map_of (exits room) dir = Some target"
  shows "if (\<exists>ob. obstacle room = Some ob \<and> (direction ob = Some dir \<or> direction ob = None))
         then (\<exists>ob e out p' w'. obstacle room = Some ob
                 \<and> handle_movement_execution p w room dir ans choice2
                     = (e, Line (''! '' @ message ob) # out, p', w')
                 \<and> location p' = location p)
         else handle_movement_execution p w room dir ans choice2
                = (None, [Line (''You move '' @ dir @ '' to the '' @ target @ ''...'')],
                   p\<lparr>location := target\<rparr>, w)"
proof (cases "\<exists>ob. obstacle room = Some ob \<and> (direction ob = Some dir \<or> direction ob = None)")
  case True
  then obtain ob where ob: "obstacle room = Some ob"
      "direction ob = Some dir \<or> direction ob = None" by blast
  obtain e out p' w' where u:
    "handle_use_item p w (Some (required_item ob)) choice2 = (e, out, p', w')"
    by (metis prod_cases4)
  have "location p' = location p" using handle_use_item_player[OF u] by simp
  with ob u have "\<exists>e out p' w'. handle_movement_execution p w room dir ans choice2
                     = (e, Line (''! '' @ message ob) # out, p', w')
                 \<and> location p' = location p"
    by (cases ans) (auto simp: handle_movement_execution_def)
  with ob True show ?thesis by auto
next
  case False
  then have "(case obstacle room of None \<Rightarrow> None
            | Some ob \<Rightarrow> if direction ob = Some dir \<or> direction ob = None then Some ob else None)
        = None"
    by (cases "obstacle room") auto
  with assms False show ?thesis
    by (simp add: handle_movement_execution_def)
qed

theorem movement_blocked_iff_witness:
  "(\<exists>ob e out p' w'.
      obstacle \<lparr>description = ''Weapons rust on racks. A strongbox sits in the center.'',
         exits = [(''back'', ''Kitchen''), (''north'', ''Treasury'')],
         items = [],
         obstacle = Some \<lparr>type = ''chest'', required_item = ''Crowbar'',
           message = ''The strongbox is jammed shut!'', direction = None\<rparr>\<rparr> = Some ob
      \<and> handle_movement_execution
          \<lparr>name = ''Ann'', inventory = [], location = ''Armory'', max_inventory = 4\<rparr>
          create_world
          \<lparr>description = ''Weapons rust on racks. A strongbox sits in the center.'',
           exits = [(''back'', ''Kitchen''), (''north'', ''Treasury'')],
           items = [],
           obstacle = Some \<lparr>type = ''chest'', required_item = ''Crowbar'',
             message = ''The strongbox is jammed shut!'', direction = None\<rparr>\<rparr>
          ''back'' True None
        = (e, Line (''! '' @ message ob) # out, p', w')
      \<and> location p' = ''Armory'')
   \<and> handle_movement_execution
          \<lparr>name = ''Ann'', inventory = [], location = ''Kitchen'', max_inventory = 4\<rparr>
          create_world
          \<lparr>description = ''A filthy kitchen with moldy food. A torch burns on the wall.'',
           exits = [(''back'', ''Guard Room''), (''right'', ''Armory'')],
           items = [''Torch'', ''Food''],
           obstacle = None\<rparr>
          ''right'' True None
        = (None, [Line ''You move right to the Armory...''],
           \<lparr>name = ''Ann'', inventory = [], location = ''Armory'', max_inventory = 4\<rparr>,
           create_world)"
proof -
  let ?armory = "\<lparr>description = ''Weapons rust on racks. A strongbox sits in the center.'',
         exits = [(''back'', ''Kitchen''), (''north'', ''Treasury'')],
         items = [],
         obstacle = Some \<lparr>type = ''chest'', required_item = ''Crowbar'',
           message = ''The strongbox is jammed shut!'', direction = None\<rparr>\<rparr>"
  let ?kitchen = "\<lparr>description = ''A filthy kitchen with moldy food. A torch burns on the wall.'',
           exits = [(''back'', ''Guard Room''), (''right'', ''Armory'')],
           items = [''Torch'', ''Food''],
           obstacle = None\<rparr>"
  have e1: "map_of (exits ?armory) ''back'' = Some ''Kitchen''" by simp
  have e2: "map_of (exits ?kitchen) ''right'' = Some ''Armory''" by simp
  show ?thesis
    using movement_blocked_iff[OF e1,
        of "\<lparr>name = ''Ann'', inventory = [], location = ''Armory'', max_inventory = 4\<rparr>"
           create_world True None]
      movement_blocked_iff[OF e2,
        of "\<lparr>name = ''Ann'', inventory = [], location = ''Kitchen'', max_inventory = 4\<rparr>"
           create_world True None]
    by simp
qed

text \<open>
  Claim C10. A \<^verbatim>\<open>move\<close> whose chosen exit is blocked ends with the player where they were.
  This is so even when the player agrees to use an item, holds the item the obstacle
  requires, and the obstacle is thereby cleared: the command returns normally, the room's
  obstacle is absent, the location is unchanged, and it is the same choice in a following
  \<^verbatim>\<open>move\<close> that takes the player to the exit's target.
\<close>

theorem blocked_move_stays:
  assumes room: "w (location p) = Some room"
    and c: "1 \<le> c" "c \<le> int (length (exits room))"
    and ob: "obstacle room = Some ob"
    and blocked: "direction ob = Some (map fst (exits room) ! nat (c - 1)) \<or> direction ob = None"
  shows "\<exists>e out p' w'.
           handle_move p w (Some c) ans c2 = (e, out, p', w')
           \<and> location p' = location p
           \<and> (ans \<and> required_item ob \<noteq> [] \<and> required_item ob \<in> set (inventory p) \<longrightarrow>
                e = None
                \<and> (\<exists>room'. w' (location p) = Some room' \<and> obstacle room' = None)
                \<and> (\<exists>out2 target.
                      map_of (exits room) (map fst (exits room) ! nat (c - 1)) = Some target
                      \<and> handle_move p' w' (Some c) ans2 c3
                          = (None, out2, p'\<lparr>location := target\<rparr>, w')))"
proof -
  let ?d = "map fst (exits room) ! nat (c - 1)"
  have mv: "handle_move p w (Some c) ans c2 =
          (case (if ans then
             (case handle_use_item p w (Some (required_item ob)) c2 of
                (e, out, p', w') \<Rightarrow> (e, Line (''! '' @ message ob) # out, p', w'))
           else (None, [Line (''! '' @ message ob)], p, w)) of
             (e, out2, p', w') \<Rightarrow>
               (e, (Line ''Available directions:'' # numbered (map fst (exits room))) @ out2,
                p', w'))"
    using handle_move_valid[where w = w and p = p, OF room c, of ans c2]
      movement_blocked[OF ob blocked, of p w ans c2] by simp
  have "nat (c - 1) < length (exits room)" using c by linarith
  then obtain target where target: "map_of (exits room) ?d = Some target"
    using map_of_nth_key[of "nat (c - 1)" "exits room"] by blast
  show ?thesis
  proof (cases "ans \<and> required_item ob \<noteq> [] \<and> required_item ob \<in> set (inventory p)")
    case True
    from hinted_use_clears_obstacle[where w = w and p = p and ?c2.0 = c2, OF room ob] True
    obtain out p' room' where u: "handle_use_item p w (Some (required_item ob)) c2
             = (None, out, p', w(location p \<mapsto> room'))"
      and p': "location p' = location p" and room': "obstacle room' = None"
        "exits room' = exits room" by blast
    let ?w' = "w(location p \<mapsto> room')"
    have mv': "handle_move p w (Some c) ans c2
        = (None, (Line ''Available directions:'' # numbered (map fst (exits room)))
             @ Line (''! '' @ message ob) # out, p', ?w')"
      using mv u True by simp
    have w': "?w' (location p') = Some room'" using p' by simp
    have c': "c \<le> int (length (exits room'))" using c room' by simp
    have t': "map_of (exits room') (map fst (exits room') ! nat (c - 1)) = Some target"
      using target room' by simp
    from handle_move_open[where w = "?w'" and p = p', OF w' c(1) c' room'(1) t', of ans2 c3]
    obtain out2 where "handle_move p' ?w' (Some c) ans2 c3
        = (None, out2, p'\<lparr>location := target\<rparr>, ?w')" by blast
    with mv' p' room' target show ?thesis by auto
  next
    case False
    obtain e out p' w' where u:
      "handle_use_item p w (Some (required_item ob)) c2 = (e, out, p', w')"
      by (metis prod_cases4)
    have p': "location p' = location p" using handle_use_item_player[OF u] by simp
    have "\<exists>e out p' w'. handle_move p w (Some c) ans c2 = (e, out, p', w')
           \<and> location p' = location p"
      using mv u p' by (cases ans) auto
    with False show ?thesis by blast
  qed
qed

theorem blocked_move_stays_witness:
  "\<exists>out p' w'.
     handle_move \<lparr>name = ''Ann'', inventory = [''Cell Key''], location = ''Dungeon Cell'',
        max_inventory = 4\<rparr> create_world (Some 1) True None = (None, out, p', w')
     \<and> location p' = ''Dungeon Cell''
     \<and> (\<exists>room'. w' ''Dungeon Cell'' = Some room' \<and> obstacle room' = None)
     \<and> (\<exists>out2. handle_move p' w' (Some 1) False None
            = (None, out2, p'\<lparr>location := ''Corridor''\<rparr>, w'))"
proof -
  let ?p = "\<lparr>name = ''Ann'', inventory = [''Cell Key''], location = ''Dungeon Cell'',
        max_inventory = 4\<rparr>"
  let ?ob = "\<lparr>type = ''locked'', required_item = ''Cell Key'',
           message = ''The cell door is locked!'', direction = Some ''forward''\<rparr>"
  let ?room = "\<lparr>description = ''You're in a dark stone cell. A rusty bed sits in the corner.'',
         exits = [(''forward'', ''Corridor'')],
         items = [''Crowbar''],
         obstacle = Some ?ob\<rparr>"
  have room: "create_world (location ?p) = Some ?room"
    by (simp add: create_world_Dungeon_Cell)
  have c: "(1::int) \<le> 1" "1 \<le> int (length (exits ?room))" by simp_all
  have ob: "obstacle ?room = Some ?ob" by simp
  have blocked: "direction ?ob = Some (map fst (exits ?room) ! nat (1 - 1)) \<or> direction ?ob = None"
    by simp
  show ?thesis
    using blocked_move_stays[where w = create_world and p = ?p, OF room c ob blocked,
        of True None False None]
    by simp
qed

section \<open>Looking\<close>

text \<open>
  Claim C8. Whenever the player is in the Treasury with the Gem in the inventory, and
  whatever the Treasury's obstacle is at that moment (so at every look, the first and the
  later ones), \<^verbatim>\<open>handle_look\<close> ends with the two lines about the guard and leaves the
  Treasury's obstacle absent; the player, and so the inventory, is returned unchanged.
\<close>

theorem look_clears_treasury_guard:
  assumes "location p = ''Treasury''"
    and "''Gem'' \<in> set (inventory p)"
    and "w ''Treasury'' = Some treasury"
  shows "\<exists>out. handle_look p w
           = (None, out @ guard_lines, p, w(''Treasury'' \<mapsto> treasury\<lparr>obstacle := None\<rparr>))"
  using assms by (simp add: handle_look_def handle_special_interactions_def has_item_def Let_def)

theorem look_clears_treasury_guard_witness:
  "\<exists>out. handle_look
       \<lparr>name = ''Ann'', inventory = [''Rope'', ''Gem''], location = ''Treasury'',
        max_inventory = 4\<rparr> create_world
     = (None, out @ guard_lines,
        \<lparr>name = ''Ann'', inventory = [''Rope'', ''Gem''], location = ''Treasury'',
         max_inventory = 4\<rparr>,
        create_world(''Treasury'' \<mapsto>
          \<lparr>description = ''Glittering treasures line the walls. A suspicious guard stands watch.'',
           exits = [(''south'', ''Armory'')],
           items = [''Gold Coin''],
           obstacle = None\<rparr>))"
proof -
  let ?p = "\<lparr>name = ''Ann'', inventory = [''Rope'', ''Gem''], location = ''Treasury'',
        max_inventory = 4\<rparr>"
  have loc: "location ?p = ''Treasury''" by simp
  have gem: "''Gem'' \<in> set (inventory ?p)" by simp
  show ?thesis
    using look_clears_treasury_guard[where w = create_world, OF loc gem create_world_Treasury]
    by simp
qed

section \<open>How the handlers change the world\<close>

lemma handle_locked_chest_changed:
  "handle_locked_chest p w item = (e, out, p', w', b) \<Longrightarrow> changed w w'"
  by (auto simp: handle_locked_chest_def split: if_splits option.splits
      intro: changed.intros)

lemma handle_special_interactions_changed:
  "handle_special_interactions p w = (e, out, p', w') \<Longrightarrow> changed w w'"
  by (auto simp: handle_special_interactions_def split: if_splits option.splits sum.splits
      intro: changed.intros)

lemma handle_look_changed:
  "handle_look p w = (e, out, p', w') \<Longrightarrow> changed w w'"
  by (auto simp: handle_look_def Let_def split: option.splits prod.splits
      intro: changed.intros dest: handle_special_interactions_changed)

lemma handle_take_changed:
  "handle_take p w c = (e, out, p', w') \<Longrightarrow> changed w w'"
  by (auto simp: handle_take_def Let_def split: option.splits if_splits sum.splits
      intro: changed.intros dest: py_index_in_set)

lemma apply_item_to_use_changed:
  assumes "apply_item_to_use p w item = (e, out, p', w')"
  shows "changed w w'"
proof -
  obtain e1 out1 p1 w1 b where c: "handle_locked_chest p w item = (e1, out1, p1, w1, b)"
    by (metis prod_cases5)
  have c1: "changed w w1" using c by (rule handle_locked_chest_changed)
  have same: "\<not> b \<Longrightarrow> w1 = w"
    using c by (auto simp: handle_locked_chest_def split: if_splits option.splits)
  show ?thesis
  proof (cases "e1 = None \<and> \<not> b")
    case False
    with assms c c1 show ?thesis
      by (cases e1; cases b) (auto simp: apply_item_to_use_def)
  next
    case True
    with same have "w1 = w" by simp
    with assms c True show ?thesis
      by (auto simp: apply_item_to_use_def split: option.splits if_splits
          intro: changed.intros)
  qed
qed

lemma handle_use_item_changed:
  "handle_use_item p w r c = (e, out, p', w') \<Longrightarrow> changed w w'"
  by (auto simp: handle_use_item_def split: prod.splits option.splits
      intro: changed.intros dest: apply_item_to_use_changed)

lemma handle_movement_execution_changed:
  "handle_movement_execution p w room d a c2 = (e, out, p', w') \<Longrightarrow> changed w w'"
  by (auto simp: handle_movement_execution_def split: prod.splits option.splits if_splits
      intro: changed.intros dest: handle_use_item_changed)

lemma handle_move_changed:
  "handle_move p w c a c2 = (e, out, p', w') \<Longrightarrow> changed w w'"
  by (auto simp: handle_move_def Let_def split: prod.splits option.splits if_splits
      intro: changed.intros dest: handle_movement_execution_changed)

subsection \<open>Item lists\<close>

lemma changed_items_sound:
  assumes "changed w w'" and "items_sound w"
  shows "items_sound w'"
  using assms
proof (induction rule: changed.induct)
  case (unchanged w)
  then show ?case .
next
  case (item_taken w k r x)
  then have "distinct (items r)" "k = ''Armory'' \<and> obstacle r \<noteq> None \<longrightarrow> items r = []"
    by (auto simp: items_sound_def)
  with item_taken show ?case
    by (auto simp: items_sound_def)
next
  case (obstacle_cleared w k r)
  then have "distinct (items r)" by (auto simp: items_sound_def)
  with obstacle_cleared show ?case
    by (auto simp: items_sound_def)
next
  case (chest_opened w r ob)
  then have "items r = []" by (auto simp: items_sound_def)
  with chest_opened show ?case
    by (auto simp: items_sound_def)
qed

lemma create_world_items_sound: "items_sound create_world"
  unfolding items_sound_def
proof (intro allI impI)
  fix k r
  assume "create_world k = Some r"
  then show "distinct (items r) \<and> (k = ''Armory'' \<and> obstacle r \<noteq> None \<longrightarrow> items r = [])"
    unfolding create_world_def
    by (simp split: if_splits) auto
qed

lemma derived_items_sound: "derived w \<Longrightarrow> items_sound w"
proof (induction rule: derived.induct)
  case derived_create
  show ?case by (rule create_world_items_sound)
next
  case (derived_look w p e out p' w')
  then show ?case by (blast intro: changed_items_sound handle_look_changed)
next
  case (derived_take w p c e out p' w')
  then show ?case by (blast intro: changed_items_sound handle_take_changed)
next
  case (derived_move w p c a c2 e out p' w')
  then show ?case by (blast intro: changed_items_sound handle_move_changed)
next
  case (derived_use w p r c e out p' w')
  then show ?case by (blast intro: changed_items_sound handle_use_item_changed)
qed

subsection \<open>Rooms, descriptions, exits and obstacles\<close>

lemma structure_kept_refl: "structure_kept w w"
  by (auto simp: structure_kept_def)

lemma structure_kept_trans:
  assumes "structure_kept w1 w2" and "structure_kept w2 w3"
  shows "structure_kept w1 w3"
  unfolding structure_kept_def
proof (intro conjI allI impI)
  show "dom w3 = dom w1" using assms by (simp add: structure_kept_def)
next
  fix k r
  assume "w1 k = Some r"
  with assms(1) obtain r2 where r2: "w2 k = Some r2" "description r2 = description r"
      "exits r2 = exits r" "obstacle r = None \<longrightarrow> obstacle r2 = None"
    unfolding structure_kept_def by blast
  with assms(2) obtain r3 where "w3 k = Some r3" "description r3 = description r2"
      "exits r3 = exits r2" "obstacle r2 = None \<longrightarrow> obstacle r3 = None"
    unfolding structure_kept_def by blast
  with r2 show "\<exists>r'. w3 k = Some r' \<and> description r' = description r \<and> exits r' = exits r
      \<and> (obstacle r = None \<longrightarrow> obstacle r' = None)"
    by auto
qed

lemma structure_kept_update:
  assumes "w k = Some r" and "description r' = description r" and "exits r' = exits r"
    and "obstacle r = None \<longrightarrow> obstacle r' = None"
  shows "structure_kept w (w(k \<mapsto> r'))"
  using assms by (auto simp: structure_kept_def)

lemma changed_structure_kept: "changed w w' \<Longrightarrow> structure_kept w w'"
proof (induction rule: changed.induct)
  case (unchanged w)
  show ?case by (rule structure_kept_refl)
next
  case (item_taken w k r x)
  then show ?case by (intro structure_kept_update) auto
next
  case (obstacle_cleared w k r)
  then show ?case by (intro structure_kept_update) auto
next
  case (chest_opened w r ob)
  then show ?case by (intro structure_kept_update) auto
qed

section \<open>Taking\<close>

text \<open>
  Claim C4. On every world the handlers can be run on, and for every player: when the
  number typed selects an item of the current room (through \<^verbatim>\<open>items[choice - 1]\<close>), then
  with the inventory below its capacity the take returns normally, the item is appended to
  the inventory, one occurrence of it is removed from the room's list, and the item is then
  in the inventory and no longer in the room's list; with the inventory at (or above) its
  capacity the take raises \<^verbatim>\<open>InventoryFullError\<close> and the player and the world, so the
  inventory and the room's list, are as before.
\<close>

theorem take_item:
  assumes "derived w"
    and "w (location p) = Some room"
    and "c \<noteq> 0"
    and "py_index (items room) (c - 1) = Some item"
  shows "if int (length (inventory p)) < max_inventory p
         then (\<exists>out p' room'.
                 handle_take p w (Some c) = (None, out, p', w(location p \<mapsto> room'))
                 \<and> p' = p\<lparr>inventory := inventory p @ [item]\<rparr>
                 \<and> room' = room\<lparr>items := remove1 item (items room)\<rparr>
                 \<and> item \<in> set (inventory p')
                 \<and> item \<notin> set (items room'))
         else (\<exists>out. handle_take p w (Some c)
                 = (Some (InventoryFullError (max_inventory p)), out, p, w))"
proof -
  have ne: "items room \<noteq> []" using py_index_in_set[OF assms(4)] by auto
  have "items_sound w" using assms(1) by (rule derived_items_sound)
  then have "distinct (items room)" using assms(2) by (auto simp: items_sound_def)
  then have gone: "item \<notin> set (remove1 item (items room))" by simp
  show ?thesis using assms(2-4) ne gone
    by (simp add: handle_take_def add_item_def Let_def)
qed

theorem take_item_witness:
  "(\<exists>out. handle_take
        \<lparr>name = ''Ann'', inventory = [''Rope''], location = ''Kitchen'', max_inventory = 4\<rparr>
        create_world (Some 2)
      = (None, out,
         \<lparr>name = ''Ann'', inventory = [''Rope'', ''Food''], location = ''Kitchen'',
          max_inventory = 4\<rparr>,
         create_world(''Kitchen'' \<mapsto>
           \<lparr>description = ''A filthy kitchen with moldy food. A torch burns on the wall.'',
            exits = [(''back'', ''Guard Room''), (''right'', ''Armory'')],
            items = [''Torch''],
            obstacle = None\<rparr>)))
   \<and> (\<exists>out. handle_take
        \<lparr>name = ''Ann'', inventory = [''Rope'', ''Crowbar'', ''Map'', ''Gem''],
         location = ''Kitchen'', max_inventory = 4\<rparr>
        create_world (Some 2)
      = (Some (InventoryFullError 4), out,
         \<lparr>name = ''Ann'', inventory = [''Rope'', ''Crowbar'', ''Map'', ''Gem''],
          location = ''Kitchen'', max_inventory = 4\<rparr>,
         create_world))"
proof -
  let ?p = "\<lparr>name = ''Ann'', inventory = [''Rope''], location = ''Kitchen'', max_inventory = 4\<rparr>"
  let ?q = "\<lparr>name = ''Ann'', inventory = [''Rope'', ''Crowbar'', ''Map'', ''Gem''],
         location = ''Kitchen'', max_inventory = 4\<rparr>"
  let ?kitchen = "\<lparr>description = ''A filthy kitchen with moldy food. A torch burns on the wall.'',
         exits = [(''back'', ''Guard Room''), (''right'', ''Armory'')],
         items = [''Torch'', ''Food''],
         obstacle = None\<rparr>"
  have p: "create_world (location ?p) = Some ?kitchen" by (simp add: create_world_Kitchen)
  have q: "create_world (location ?q) = Some ?kitchen" by (simp add: create_world_Kitchen)
  have c: "(2::int) \<noteq> 0" by simp
  have i: "py_index (items ?kitchen) (2 - 1) = Some ''Food''" by (simp add: py_index_def)
  show ?thesis
    using take_item[where w = create_world and p = ?p, OF derived_create p c i]
      take_item[where w = create_world and p = ?q, OF derived_create q c i]
    by simp
qed

text \<open>
  Claim C7 does not hold of the code for negative numbers: \<^verbatim>\<open>-1\<close> is neither 0 nor a
  1-based index into the two items listed in the Kitchen, yet \<^verbatim>\<open>items[-1 - 1]\<close> is the Torch
  and the take goes through.
\<close>

theorem take_negative_choice:
  "handle_take
      \<lparr>name = ''Ann'', inventory = [], location = ''Kitchen'', max_inventory = 4\<rparr>
      create_world (Some (- 1))
    = (None,
       [Line ''What would you like to take?'', Numbered 1 ''Torch'', Numbered 2 ''Food'',
        Line ''You picked up the Torch.''],
       \<lparr>name = ''Ann'', inventory = [''Torch''], location = ''Kitchen'', max_inventory = 4\<rparr>,
       create_world(''Kitchen'' \<mapsto>
         \<lparr>description = ''A filthy kitchen with moldy food. A torch burns on the wall.'',
          exits = [(''back'', ''Guard Room''), (''right'', ''Armory'')],
          items = [''Food''],
          obstacle = None\<rparr>))"
  by (simp add: handle_take_def create_world_Kitchen numbered_def py_index_def add_item_def)

text \<open>
  What does hold: no number at all, a number above the length of the menu, or one below
  \<open>1 - length\<close>, is answered with the line \<^verbatim>\<open>Invalid choice.\<close> and changes nothing, in
  \<^verbatim>\<open>take\<close> and in \<^verbatim>\<open>use\<close>.
\<close>

lemma take_invalid_choice:
  assumes "w (location p) = Some room"
    and "items room \<noteq> []"
    and "choice = None
         \<or> (\<exists>c. choice = Some c \<and> (int (length (items room)) < c
                                    \<or> c < 1 - int (length (items room))))"
  shows "handle_take p w choice
           = (None,
              (Line ''What would you like to take?'' # numbered (items room))
                @ [Line ''Invalid choice.''], p, w)"
  using assms by (auto simp: handle_take_def py_index_def Let_def)

lemma use_invalid_choice:
  assumes "inventory p \<noteq> []"
    and "choice = None
         \<or> (\<exists>c. choice = Some c \<and> (int (length (inventory p)) < c
                                    \<or> c < 1 - int (length (inventory p))))"
  shows "handle_use_item p w None choice
           = (None,
              (Line ''Which item would you like to use?'' # numbered (inventory p))
                @ [Line ''Invalid choice.''], p, w)"
  using assms by (auto simp: handle_use_item_def select_item_to_use_def py_index_def Let_def)

section \<open>Runs of the game loop\<close>

lemma after_command_state:
  "after_command (e, out, p', w') = (st, out2, g') \<Longrightarrow> g' = \<lparr>player = p', world = w'\<rparr>"
  by (auto simp: after_command_def split: option.splits if_splits)

lemma game_turn_cases:
  obtains (look) "command t = ''look''"
      "game_turn g t = (case after_command (handle_look (player g) (world g)) of
          (st, out, g') \<Rightarrow> (st, Line (''[Current Location: '' @ location (player g) @ '']'') # out, g'))"
  | (take) "command t = ''take''"
      "game_turn g t = (case after_command (handle_take (player g) (world g) (number t)) of
          (st, out, g') \<Rightarrow> (st, Line (''[Current Location: '' @ location (player g) @ '']'') # out, g'))"
  | (move) "command t = ''move''"
      "game_turn g t = (case after_command
            (handle_move (player g) (world g) (number t) (answer t) (number2 t)) of
          (st, out, g') \<Rightarrow> (st, Line (''[Current Location: '' @ location (player g) @ '']'') # out, g'))"
  | (use) "command t = ''use''"
      "game_turn g t = (case after_command
            (handle_use_item (player g) (world g) None (number t)) of
          (st, out, g') \<Rightarrow> (st, Line (''[Current Location: '' @ location (player g) @ '']'') # out, g'))"
  | (other) "\<exists>st out. game_turn g t = (st, out, g) \<and> (st = Victory \<longrightarrow> location (player g) = ''Exit Gate'')"
proof (cases "command t = ''look''")
  case True
  then show ?thesis using look by (simp add: game_turn_def)
next
  case nl: False
  show ?thesis
  proof (cases "command t = ''take''")
    case True
    then show ?thesis using take nl by (simp add: game_turn_def)
  next
    case nt: False
    show ?thesis
    proof (cases "command t = ''move''")
      case True
      then show ?thesis using move nl nt by (simp add: game_turn_def)
    next
      case nm: False
      show ?thesis
      proof (cases "command t = ''use''")
        case True
        then show ?thesis using use nl nt nm by (simp add: game_turn_def)
      next
        case nu: False
        have "\<exists>st out. game_turn g t = (st, out, g) \<and> (st = Victory \<longrightarrow> location (player g) = ''Exit Gate'')"
          using nl nt nm nu
          by (simp add: game_turn_def after_command_def is_GameError_def)
        then show ?thesis by (rule other)
      qed
    qed
  qed
qed

lemma game_turn_after:
  assumes "game_turn g t = (st, out, g')"
    and "game_turn g t = (case after_command r of (st, out, g') \<Rightarrow> (st, l # out, g'))"
    and "r = (e, ol, p', w')"
  shows "g' = \<lparr>player = p', world = w'\<rparr> \<and> (st = Victory \<longrightarrow> location p' = ''Exit Gate'')"
proof -
  have "(case after_command (e, ol, p', w') of (st, out, g') \<Rightarrow> (st, l # out, g'))
        = (st, out, g')"
    using assms by simp
  then show ?thesis
    by (auto simp: after_command_def split: if_splits option.splits)
qed

text \<open>What a turn leaves behind is what the handler of its command leaves behind.\<close>

lemma game_turn_result:
  assumes "game_turn g t = (st, out, g')"
  shows "\<exists>e ol p' w'.
           g' = \<lparr>player = p', world = w'\<rparr>
           \<and> (st = Victory \<longrightarrow> location p' = ''Exit Gate'')
           \<and> (handle_look (player g) (world g) = (e, ol, p', w')
              \<or> handle_take (player g) (world g) (number t) = (e, ol, p', w')
              \<or> handle_move (player g) (world g) (number t) (answer t) (number2 t)
                   = (e, ol, p', w')
              \<or> handle_use_item (player g) (world g) None (number t) = (e, ol, p', w')
              \<or> (p' = player g \<and> w' = world g))"
proof (cases rule: game_turn_cases[of t g])
  case look
  obtain e ol p' w' where h: "handle_look (player g) (world g) = (e, ol, p', w')"
    by (metis prod_cases4)
  from game_turn_after[OF assms look(2) h] h show ?thesis by blast
next
  case take
  obtain e ol p' w' where h: "handle_take (player g) (world g) (number t) = (e, ol, p', w')"
    by (metis prod_cases4)
  from game_turn_after[OF assms take(2) h] h show ?thesis by blast
next
  case move
  obtain e ol p' w' where h:
    "handle_move (player g) (world g) (number t) (answer t) (number2 t) = (e, ol, p', w')"
    by (metis prod_cases4)
  from game_turn_after[OF assms move(2) h] h show ?thesis by blast
next
  case use
  obtain e ol p' w' where h:
    "handle_use_item (player g) (world g) None (number t) = (e, ol, p', w')"
    by (metis prod_cases4)
  from game_turn_after[OF assms use(2) h] h show ?thesis by blast
next
  case other
  with assms have "g' = g" "st = Victory \<longrightarrow> location (player g) = ''Exit Gate''" by auto
  then have "g' = \<lparr>player = player g, world = world g\<rparr>
      \<and> (st = Victory \<longrightarrow> location (player g) = ''Exit Gate'')" by simp
  then show ?thesis by blast
qed

lemma game_turn_changed:
  assumes "game_turn g t = (st, out, g')"
  shows "changed (world g) (world g')"
proof -
  from game_turn_result[OF assms] obtain e ol p' w' where
    g': "g' = \<lparr>player = p', world = w'\<rparr>" and
    h: "handle_look (player g) (world g) = (e, ol, p', w')
        \<or> handle_take (player g) (world g) (number t) = (e, ol, p', w')
        \<or> handle_move (player g) (world g) (number t) (answer t) (number2 t) = (e, ol, p', w')
        \<or> handle_use_item (player g) (world g) None (number t) = (e, ol, p', w')
        \<or> (p' = player g \<and> w' = world g)"
    by blast
  from h have "changed (world g) w'"
    by (blast intro: handle_look_changed handle_take_changed handle_move_changed
        handle_use_item_changed changed.unchanged)
  with g' show ?thesis by simp
qed

lemma main_loop_structure_kept:
  "main_loop g ts = (st, out, g') \<Longrightarrow> structure_kept (world g) (world g')"
proof (induction ts arbitrary: g st out g')
  case Nil
  then show ?case by (simp add: structure_kept_refl)
next
  case (Cons t ts)
  obtain st1 out1 g1 where t: "game_turn g t = (st1, out1, g1)" by (metis prod_cases3)
  have k1: "structure_kept (world g) (world g1)"
    using game_turn_changed[OF t] by (rule changed_structure_kept)
  show ?case
  proof (cases "st1 = Running")
    case True
    obtain st2 out2 g2 where r: "main_loop g1 ts = (st2, out2, g2)" by (metis prod_cases3)
    with Cons.prems t True have "g' = g2" by simp
    with Cons.IH[OF r] k1 show ?thesis by (blast intro: structure_kept_trans)
  next
    case False
    with Cons.prems t have "g' = g1" by (cases st1) auto
    with k1 show ?thesis by simp
  qed
qed

text \<open>
  Claim C9. Whatever the state the loop starts in and whatever is typed, the world at the
  end has the same room names as at the start, every room has the description and the exits
  it had, and a room whose obstacle was absent has it absent still: the operations change
  item lists and obstacle fields only, and never put an obstacle back.
\<close>

theorem world_structure_kept:
  assumes "main_loop g ts = (st, out, g')"
  shows "dom (world g') = dom (world g)
         \<and> (\<forall>k r. world g k = Some r \<longrightarrow>
               (\<exists>r'. world g' k = Some r'
                     \<and> description r' = description r
                     \<and> exits r' = exits r
                     \<and> (obstacle r = None \<longrightarrow> obstacle r' = None)))"
  using main_loop_structure_kept[OF assms] by (simp add: structure_kept_def)

theorem world_structure_kept_witness:
  "main_loop
       \<lparr>player = \<lparr>name = ''Ann'', inventory = [''Torch''], location = ''Guard Room'',
                  max_inventory = 4\<rparr>,
        world = create_world\<rparr>
       [Turn ''use'' (Some 1) False None, Turn ''look'' None False None]
   = (Running,
      [Line ''[Current Location: Guard Room]'',
       Line ''Which item would you like to use?'', Numbered 1 ''Torch'',
       Line ''You used the Torch successfully!'',
       Line ''You distracted the guard with the Torch.'',
       Line ''[Current Location: Guard Room]'',
       Line ''A guard snores loudly in a chair. There's a door behind him.'',
       Line ''There are no items of interest here.''],
      \<lparr>player = \<lparr>name = ''Ann'', inventory = [''Torch''], location = ''Guard Room'',
                  max_inventory = 4\<rparr>,
       world = create_world(''Guard Room'' \<mapsto>
         \<lparr>description = ''A guard snores loudly in a chair. There's a door behind him.'',
          exits = [(''back'', ''Corridor''), (''forward'', ''Kitchen'')],
          items = [],
          obstacle = None\<rparr>)\<rparr>)
   \<and> dom (create_world(''Guard Room'' \<mapsto>
         \<lparr>description = ''A guard snores loudly in a chair. There's a door behind him.'',
          exits = [(''back'', ''Corridor''), (''forward'', ''Kitchen'')],
          items = [],
          obstacle = None\<rparr>)) = dom create_world
   \<and> (\<exists>r'. (create_world(''Guard Room'' \<mapsto>
         \<lparr>description = ''A guard snores loudly in a chair. There's a door behind him.'',
          exits = [(''back'', ''Corridor''), (''forward'', ''Kitchen'')],
          items = [],
          obstacle = None\<rparr>)) ''Kitchen'' = Some r'
         \<and> description r' = ''A filthy kitchen with moldy food. A torch burns on the wall.''
         \<and> exits r' = [(''back'', ''Guard Room''), (''right'', ''Armory'')]
         \<and> obstacle r' = None)"
proof -
  let ?g = "\<lparr>player = \<lparr>name = ''Ann'', inventory = [''Torch''], location = ''Guard Room'',
                  max_inventory = 4\<rparr>,
        world = create_world\<rparr>"
  let ?ts = "[Turn ''use'' (Some 1) False None, Turn ''look'' None False None]"
  let ?out = "[Line ''[Current Location: Guard Room]'',
       Line ''Which item would you like to use?'', Numbered 1 ''Torch'',
       Line ''You used the Torch successfully!'',
       Line ''You distracted the guard with the Torch.'',
       Line ''[Current Location: Guard Room]'',
       Line ''A guard snores loudly in a chair. There's a door behind him.'',
       Line ''There are no items of interest here.'']"
  let ?g' = "\<lparr>player = \<lparr>name = ''Ann'', inventory = [''Torch''], location = ''Guard Room'',
                  max_inventory = 4\<rparr>,
       world = create_world(''Guard Room'' \<mapsto>
         \<lparr>description = ''A guard snores loudly in a chair. There's a door behind him.'',
          exits = [(''back'', ''Corridor''), (''forward'', ''Kitchen'')],
          items = [],
          obstacle = None\<rparr>)\<rparr>"
  have m: "main_loop ?g ?ts = (Running, ?out, ?g')"
    by (simp add: game_turn_def after_command_def handle_use_item_def select_item_to_use_def
        apply_item_to_use_def handle_locked_chest_def create_world_Guard_Room numbered_def
        py_index_def handle_look_def handle_special_interactions_def Let_def)
  from world_structure_kept[OF m] have d: "dom (world ?g') = dom (world ?g)"
    and k: "\<And>k r. world ?g k = Some r \<Longrightarrow>
               (\<exists>r'. world ?g' k = Some r'
                     \<and> description r' = description r
                     \<and> exits r' = exits r
                     \<and> (obstacle r = None \<longrightarrow> obstacle r' = None))"
    by blast+
  have kitchen: "world ?g ''Kitchen'' = Some
      \<lparr>description = ''A filthy kitchen with moldy food. A torch burns on the wall.'',
       exits = [(''back'', ''Guard Room''), (''right'', ''Armory'')],
       items = [''Torch'', ''Food''],
       obstacle = None\<rparr>"
    by (simp add: create_world_Kitchen)
  from k[OF kitchen] obtain r' where
    "world ?g' ''Kitchen'' = Some r'"
    "description r' = ''A filthy kitchen with moldy food. A torch burns on the wall.''"
    "exits r' = [(''back'', ''Guard Room''), (''right'', ''Armory'')]"
    "obstacle r' = None"
    by auto
  then have "\<exists>r'. world ?g' ''Kitchen'' = Some r'
         \<and> description r' = ''A filthy kitchen with moldy food. A torch burns on the wall.''
         \<and> exits r' = [(''back'', ''Guard Room''), (''right'', ''Armory'')]
         \<and> obstacle r' = None"
    by blast
  with m d show ?thesis by simp
qed

subsection \<open>The cell\<close>

lemma locked_in_initial: "locked_in (Player_init n m) create_world"
  by (simp add: locked_in_def Player_init_def create_world_Dungeon_Cell)

lemma locked_in_look:
  assumes "locked_in p w"
  shows "\<exists>out. handle_look p w = (None, out, p, w)"
  using assms
  by (auto simp: locked_in_def handle_look_def handle_special_interactions_def Let_def)

lemma locked_in_use:
  assumes "locked_in p w"
  shows "\<exists>out. handle_use_item p w required c = (None, out, p, w)"
proof (cases "select_item_to_use p required c")
  case (Pair out1 sel)
  show ?thesis
  proof (cases sel)
    case None
    with Pair show ?thesis by (simp add: handle_use_item_def)
  next
    case (Some item)
    with Pair have "item \<in> set (inventory p)" by (auto dest: select_item_in_inventory)
    with assms have item: "item = ''Crowbar''" by (auto simp: locked_in_def)
    from assms obtain r ob where r: "w (location p) = Some r" "obstacle r = Some ob"
        "required_item ob = ''Cell Key''" "location p = ''Dungeon Cell''"
      by (auto simp: locked_in_def)
    have "apply_item_to_use p w item =
           (None, [Line (''You used the '' @ item @ '', but nothing happened.'')], p, w)"
      using r item by (intro apply_item_to_use_mismatch[where room = r]) auto
    with Pair Some show ?thesis by (simp add: handle_use_item_def)
  qed
qed

lemma locked_in_move:
  assumes "locked_in p w"
  shows "\<exists>e out. handle_move p w c a c2 = (e, out, p, w)"
proof -
  from assms obtain r ob where r: "w (location p) = Some r" "obstacle r = Some ob"
      "exits r = [(''forward'', ''Corridor'')]" "direction ob = Some ''forward''"
    by (auto simp: locked_in_def)
  show ?thesis
  proof (cases "c = Some 1")
    case True
    have v: "handle_move p w (Some 1) a c2 =
          (case handle_movement_execution p w r (map fst (exits r) ! nat (1 - 1)) a c2 of
             (e, out2, p', w') \<Rightarrow>
               (e, (Line ''Available directions:'' # numbered (map fst (exits r))) @ out2,
                p', w'))"
      using r by (intro handle_move_valid) auto
    have d: "direction ob = Some (map fst (exits r) ! nat (1 - 1)) \<or> direction ob = None"
      using r by simp
    from locked_in_use[OF assms, of "Some (required_item ob)" c2]
    obtain out where u: "handle_use_item p w (Some (required_item ob)) c2 = (None, out, p, w)"
      by blast
    show ?thesis unfolding True v movement_blocked[OF r(2) d] u
      by (cases a) simp_all
  next
    case False
    with r show ?thesis
      by (cases c) (auto simp: handle_move_def Let_def)
  qed
qed

lemma locked_in_take:
  assumes "locked_in p w" and "handle_take p w c = (e, out, p', w')"
  shows "locked_in p' w'"
proof -
  from assms(1) obtain r ob where r: "w (location p) = Some r" "obstacle r = Some ob"
      "exits r = [(''forward'', ''Corridor'')]" "direction ob = Some ''forward''"
      "required_item ob = ''Cell Key''" "set (items r) \<subseteq> {''Crowbar''}"
      "location p = ''Dungeon Cell''" "set (inventory p) \<subseteq> {''Crowbar''}"
    by (auto simp: locked_in_def)
  have rm: "\<And>x. set (remove1 x (items r)) \<subseteq> {''Crowbar''}"
    using r(6) set_remove1_subset by fastforce
  show ?thesis
    using assms(2) r rm
    by (auto simp: handle_take_def Let_def add_item_def locked_in_def
        split: option.splits if_splits dest!: py_index_in_set)
qed

lemma locked_in_game_turn:
  assumes "locked_in (player g) (world g)" and "game_turn g t = (st, out, g')"
  shows "locked_in (player g') (world g') \<and> st \<noteq> Victory"
proof -
  from game_turn_result[OF assms(2)] obtain e ol p' w' where
    g': "g' = \<lparr>player = p', world = w'\<rparr>" and
    v: "st = Victory \<longrightarrow> location p' = ''Exit Gate''" and
    h: "handle_look (player g) (world g) = (e, ol, p', w')
        \<or> handle_take (player g) (world g) (number t) = (e, ol, p', w')
        \<or> handle_move (player g) (world g) (number t) (answer t) (number2 t) = (e, ol, p', w')
        \<or> handle_use_item (player g) (world g) None (number t) = (e, ol, p', w')
        \<or> (p' = player g \<and> w' = world g)"
    by blast
  have "locked_in p' w'"
    using h locked_in_look[OF assms(1)] locked_in_take[OF assms(1)]
      locked_in_move[OF assms(1), of "number t" "answer t" "number2 t"]
      locked_in_use[OF assms(1), of None "number t"] assms(1)
    by (elim disjE) auto
  moreover from this have "location p' = ''Dungeon Cell''" by (simp add: locked_in_def)
  with v have "st \<noteq> Victory" by auto
  ultimately show ?thesis using g' by simp
qed

lemma locked_in_main_loop:
  "locked_in (player g) (world g) \<Longrightarrow> main_loop g ts = (st, out, g') \<Longrightarrow>
     locked_in (player g') (world g') \<and> st \<noteq> Victory"
proof (induction ts arbitrary: g st out g')
  case Nil
  then show ?case by auto
next
  case (Cons t ts)
  obtain st1 out1 g1 where t: "game_turn g t = (st1, out1, g1)" by (metis prod_cases3)
  note l1 = locked_in_game_turn[OF Cons.prems(1) t]
  show ?case
  proof (cases "st1 = Running")
    case True
    obtain st2 out2 g2 where r: "main_loop g1 ts = (st2, out2, g2)" by (metis prod_cases3)
    with Cons.prems(2) t True have "g' = g2" "st = st2" by simp_all
    with Cons.IH[OF _ r] l1 show ?thesis by simp
  next
    case False
    with Cons.prems(2) t have "g' = g1" "st = st1" by (cases st1; simp)+
    with l1 show ?thesis by simp
  qed
qed

text \<open>
  Claim C5 asks for a sequence of commands that ends at the Exit Gate. The code has none:
  from the initial state of \<^verbatim>\<open>main\<close>, whatever the name and whatever is typed, the loop never
  ends in victory and the player is still in the Dungeon Cell. The cell's only exit is
  blocked by the door, the door requires the Cell Key, and the Cell Key lies in the strongbox
  of the Armory, beyond that door.
\<close>

theorem no_escape_from_the_cell:
  "fst (main player_name ts) \<noteq> Victory
   \<and> location (player (snd (snd (main player_name ts)))) = ''Dungeon Cell''"
proof -
  let ?g = "\<lparr>player = Player_init player_name 4, world = create_world\<rparr>"
  obtain st out g' where m: "main_loop ?g ts = (st, out, g')" by (metis prod_cases3)
  have "locked_in (player ?g) (world ?g)" by (simp add: locked_in_initial)
  from locked_in_main_loop[OF this m] have "locked_in (player g') (world g')" "st \<noteq> Victory"
    by simp_all
  then show ?thesis using m by (simp add: main_def locked_in_def)
qed

end
